theory Spec2Isabelle
  imports Complex_Main
begin

section \<open>ScriptEval: type resolution and reshaping of row data\<close>

text \<open>
  A shallow embedding of the class \<open>ScriptEval\<close> of
  \<open>examples/python/FullScriptSupport/ScriptEval_script.py\<close>. Every method of the class is
  one definition of the same name. An exception is a value \<open>Inl e\<close> of the sum type
  \<open>error + 'a\<close>, the mutable gRPC context is passed in and returned, and the generator
  \<open>EvaluateScript\<close> returns the list of the row bundles it has yielded together with the
  exception that ended it, if any.
\<close>

subsection \<open>Wire messages and enumerations\<close>

text \<open>
  Modelled from the spec: the protobuf module \<open>ServerSideExtension_pb2\<close> (imported as
  \<open>SSE\<close>) is not among the sources. The declared scalar kind of a parameter or of the
  return value is one of String, Numeric and Dual. It travels as a proto3 enumeration,
  which is open: a field may hold a number that names no member, written
  \<open>UNRECOGNIZED k\<close> here.
\<close>

datatype DataType = STRING | NUMERIC | DUAL | UNRECOGNIZED int

text \<open>
  Modelled from the spec: the function-type tag of the header, Scalar, Aggregation or
  Tensor, again an open proto3 enumeration of \<open>ServerSideExtension_pb2\<close>.
\<close>

datatype FunctionTypeTag = SCALAR | AGGREGATION | TENSOR | UNRECOGNIZED_TAG int

text \<open>
  Modelled from the spec: a Dual is a wire scalar with a numeric and a textual field.
  Both are proto3 scalars, so a field that was never set reads as its default, \<open>0\<close> or
  the empty string. A Row is an ordered sequence of Duals and a row bundle an ordered
  sequence of Rows. The numeric field is a double that the program only carries around
  and never computes with; it is a \<open>real\<close> here.
\<close>

record Dual =
  numData :: real
  strData :: string

record Row =
  duals :: "Dual list"

record BundledRows =
  rows :: "Row list"

text \<open>
  Modelled from the spec: the header record of a script request (also part of
  \<open>ServerSideExtension_pb2\<close>), with the script text, the function-type tag, the declared
  return kind and the ordered parameter declarations.
\<close>

record Parameter =
  dataType :: DataType

record ScriptRequestHeader =
  script :: string
  functionType :: FunctionTypeTag
  returnType :: DataType
  params :: "Parameter list"

text \<open>
  Modelled from the spec: the enumerations \<open>ArgType\<close>, \<open>ReturnType\<close> and
  \<open>FunctionType\<close> of the module \<open>SSEData_script\<close>, which is not among the sources. The
  members are the ones the source names (\<open>ArgType.Mixed\<close> is \<open>ArgMixed\<close>, and so on).
\<close>

datatype ArgType = ArgUndefined | ArgEmpty | ArgString | ArgNumeric | ArgMixed

datatype ReturnType = RetUndefined | RetString | RetNumeric | RetDual

datatype FunctionType = FuncScalar | FuncAggregation | FuncTensor

subsection \<open>Python values, exceptions and the gRPC context\<close>

text \<open>
  The values that flow between the row data and the script: strings, numbers, tuples
  and lists. A script may return any of them.
\<close>

datatype pyval = PStr string | PNum real | PTuple "pyval list" | PList "pyval list"

datatype StatusCode = OK | INVALID_ARGUMENT | UNKNOWN

text \<open>
  \<open>RpcError\<close> is the exception that \<open>get_arguments\<close> raises itself. \<open>TypeError\<close>,
  \<open>IndexError\<close> and \<open>UnboundLocalError\<close> are raised by the Python runtime.
  \<open>ScriptError\<close> stands for whatever the evaluation of the script raises.
\<close>

datatype error =
    RpcError StatusCode string
  | TypeError
  | IndexError
  | UnboundLocalError
  | ScriptError string

text \<open>The part of \<open>grpc.ServicerContext\<close> that \<open>set_code\<close> and \<open>set_details\<close> write.\<close>

record ServicerContext =
  status_code :: "StatusCode option"
  status_details :: "string option"

definition set_code :: "StatusCode \<Rightarrow> ServicerContext \<Rightarrow> ServicerContext" where
  "set_code c ctx = ctx\<lparr>status_code := Some c\<rparr>"

definition set_details :: "string \<Rightarrow> ServicerContext \<Rightarrow> ServicerContext" where
  "set_details m ctx = ctx\<lparr>status_details := Some m\<rparr>"

text \<open>
  A record of the \<open>logging\<close> module keeps the arguments of the format call, in the order
  of the source, instead of the rendered line.
\<close>

datatype log_entry =
    LogInfo string ArgType ReturnType "FunctionType option"
  | LogDebugArgs "pyval list"
  | LogDebugResult pyval

text \<open>
  \<open>str.format\<close> for the templates of the source: every replacement field is the
  automatically numbered \<open>{}\<close>, which takes the next positional argument. Text outside
  a field is copied, and positional arguments that no field asks for are dropped.
\<close>

fun py_format :: "string \<Rightarrow> string list \<Rightarrow> string" where
  "py_format [] args = []"
| "py_format (c # rest) args =
     (case (c, rest, args) of
        (CHR ''{'', CHR ''}'' # rest', a # args') \<Rightarrow> a @ py_format rest' args'
      | _ \<Rightarrow> c # py_format rest args)"

text \<open>
  Modelled from the spec: \<open>ArgType\<close> is declared in \<open>SSEData_script\<close>, which is not
  among the sources. \<open>str\<close> of a member of a Python \<open>Enum\<close> class is the name of the
  class, a dot and the name of the member.
\<close>

fun str_ArgType :: "ArgType \<Rightarrow> string" where
  "str_ArgType ArgUndefined = ''ArgType.Undefined''"
| "str_ArgType ArgEmpty = ''ArgType.Empty''"
| "str_ArgType ArgString = ''ArgType.String''"
| "str_ArgType ArgNumeric = ''ArgType.Numeric''"
| "str_ArgType ArgMixed = ''ArgType.Mixed''"

text \<open>
  Iterating a value: a string yields its characters, a tuple or a list its elements, and
  a number is not iterable.
\<close>

fun py_iter :: "pyval \<Rightarrow> error + pyval list" where
  "py_iter (PStr s) = Inr (map (\<lambda>c. PStr [c]) s)"
| "py_iter (PNum x) = Inl TypeError"
| "py_iter (PTuple xs) = Inr xs"
| "py_iter (PList xs) = Inr xs"

text \<open>
  A list comprehension whose body may raise: the elements are visited from left to
  right and the first exception ends the comprehension.
\<close>

fun map_result :: "('a \<Rightarrow> error + 'b) \<Rightarrow> 'a list \<Rightarrow> error + 'b list" where
  "map_result f [] = Inr []"
| "map_result f (x # xs) =
     (case f x of
        Inl e \<Rightarrow> Inl e
      | Inr y \<Rightarrow> (case map_result f xs of Inl e \<Rightarrow> Inl e | Inr ys \<Rightarrow> Inr (y # ys)))"

text \<open>
  \<open>zip(*xss)\<close> on sequences already unpacked: the \<open>i\<close>-th result holds the \<open>i\<close>-th element
  of every sequence, there are as many results as the shortest sequence is long, and
  there is none when there is no sequence at all.
\<close>

definition zip_star :: "'a list list \<Rightarrow> 'a list list" where
  "zip_star xss =
     (if xss = [] then []
      else map (\<lambda>i. map (\<lambda>xs. xs ! i) xss) [0..<Min (set (map length xss))])"

text \<open>
  \<open>[list(x) for x in zip(*v)]\<close> on a value \<open>v\<close>: \<open>v\<close> is unpacked, and \<open>zip\<close> asks each
  of its arguments for an iterator before it yields anything.
\<close>

definition py_zip_star :: "pyval \<Rightarrow> error + pyval list" where
  "py_zip_star v =
     (case py_iter v of
        Inl e \<Rightarrow> Inl e
      | Inr xs \<Rightarrow>
          (case map_result py_iter xs of
             Inl e \<Rightarrow> Inl e
           | Inr xss \<Rightarrow> Inr (map PList (zip_star xss))))"

text \<open>
  The constructor calls \<open>SSE.Dual(strData=col)\<close> and \<open>SSE.Dual(numData=col)\<close>. The
  field that is not named keeps its default. The fields are typed, and the protobuf
  runtime raises \<open>TypeError\<close> on a value of another type.
\<close>

fun Dual_strData :: "pyval \<Rightarrow> error + Dual" where
  "Dual_strData (PStr s) = Inr \<lparr>numData = 0, strData = s\<rparr>"
| "Dual_strData _ = Inl TypeError"

fun Dual_numData :: "pyval \<Rightarrow> error + Dual" where
  "Dual_numData (PNum x) = Inr \<lparr>numData = x, strData = []\<rparr>"
| "Dual_numData _ = Inl TypeError"

subsection \<open>The methods of \<open>ScriptEval\<close>\<close>

text \<open>\<open>get_func_type\<close>: the chain has no final \<open>else\<close>, so any other tag gives \<open>None\<close>.\<close>

definition get_func_type :: "ScriptRequestHeader \<Rightarrow> FunctionType option" where
  "get_func_type header =
     (let func_type = functionType header in
      if func_type = SCALAR then Some FuncScalar
      else if func_type = AGGREGATION then Some FuncAggregation
      else if func_type = TENSOR then Some FuncTensor
      else None)"

text \<open>\<open>get_arg_types\<close>, with \<open>len(set(data_types))\<close> as the cardinality of the set.\<close>

definition get_arg_types :: "ScriptRequestHeader \<Rightarrow> ArgType" where
  "get_arg_types header =
     (let data_types = map dataType (params header) in
      if data_types = [] then ArgEmpty
      else if card (set data_types) > 1 \<or> list_all (\<lambda>data_type. data_type = DUAL) data_types
        then ArgMixed
      else if list_all (\<lambda>data_type. data_type = STRING) data_types then ArgString
      else if list_all (\<lambda>data_type. data_type = NUMERIC) data_types then ArgNumeric
      else ArgUndefined)"

definition get_return_type :: "ScriptRequestHeader \<Rightarrow> ReturnType" where
  "get_return_type header =
     (if returnType header = STRING then RetString
      else if returnType header = NUMERIC then RetNumeric
      else if returnType header = DUAL then RetDual
      else RetUndefined)"

text \<open>
  The loop of the \<open>Mixed\<close> branch of \<open>get_arguments\<close> over \<open>zip(duals, header.params)\<close>.
  The chain inside has no final \<open>else\<close>: a pair whose parameter has none of the three
  kinds appends nothing.
\<close>

fun get_arguments_mixed :: "(Dual \<times> Parameter) list \<Rightarrow> pyval list" where
  "get_arguments_mixed [] = []"
| "get_arguments_mixed ((dual, param) # rest) =
     (if dataType param = STRING then PStr (strData dual) # get_arguments_mixed rest
      else if dataType param = NUMERIC then PNum (numData dual) # get_arguments_mixed rest
      else if dataType param = DUAL
        then PTuple [PNum (numData dual), PStr (strData dual)] # get_arguments_mixed rest
      else get_arguments_mixed rest)"

definition get_arguments ::
  "ServicerContext \<Rightarrow> ArgType \<Rightarrow> Dual list \<Rightarrow> ScriptRequestHeader
     \<Rightarrow> ServicerContext \<times> (error + pyval list)" where
  "get_arguments ctx arg_types ds header =
     (if arg_types = ArgString then (ctx, Inr (map (\<lambda>d. PStr (strData d)) ds))
      else if arg_types = ArgNumeric then (ctx, Inr (map (\<lambda>d. PNum (numData d)) ds))
      else if arg_types = ArgMixed
        then (ctx, Inr (get_arguments_mixed (zip ds (params header))))
      else
        (let msg = py_format ''Undefined argument type: '' [str_ArgType arg_types] in
         (set_details msg (set_code INVALID_ARGUMENT ctx),
          Inl (RpcError INVALID_ARGUMENT msg))))"

text \<open>
  \<open>get_duals\<close>. A string, and a value without \<open>__iter__\<close>, is a single value. When
  \<open>ret_type\<close> is neither String nor Numeric no branch binds \<open>duals\<close>, and the \<open>return\<close>
  raises \<open>UnboundLocalError\<close>.
\<close>

fun is_single_value :: "pyval \<Rightarrow> bool" where
  "is_single_value (PStr s) = True"
| "is_single_value (PNum x) = True"
| "is_single_value (PTuple xs) = False"
| "is_single_value (PList xs) = False"

definition get_duals :: "pyval \<Rightarrow> ReturnType \<Rightarrow> error + Dual list" where
  "get_duals result ret_type =
     (let result' = (if is_single_value result then PList [result] else result) in
      case py_iter result' of
        Inl e \<Rightarrow> Inl e
      | Inr cols \<Rightarrow>
          (if ret_type = RetString then map_result Dual_strData cols
           else if ret_type = RetNumeric then map_result Dual_numData cols
           else Inl UnboundLocalError))"

text \<open>
  The second half of \<open>evaluate\<close> (from \<open>bundledRows = SSE.BundledRows()\<close> on), which turns
  the result of the script into one row bundle.
\<close>

definition bundle_result :: "pyval \<Rightarrow> ReturnType \<Rightarrow> error + BundledRows" where
  "bundle_result result ret_type =
     (if is_single_value result
      then (case get_duals result ret_type of
              Inl e \<Rightarrow> Inl e
            | Inr ds \<Rightarrow> Inr \<lparr>rows = [\<lparr>duals = ds\<rparr>]\<rparr>)
      else (case py_iter result of
              Inl e \<Rightarrow> Inl e
            | Inr rs \<Rightarrow>
                (case map_result (\<lambda>row. get_duals row ret_type) rs of
                   Inl e \<Rightarrow> Inl e
                 | Inr dss \<Rightarrow> Inr \<lparr>rows = map (\<lambda>ds. \<lparr>duals = ds\<rparr>) dss\<rparr>)))"

text \<open>
  \<open>evaluate\<close>. The script is opaque: \<open>ev script args\<close> is what \<open>eval\<close> returns, or the
  exception it raises, when the script runs with \<open>args\<close> bound to the parameters. The
  first component of the result is what was logged.
\<close>

definition evaluate ::
  "(string \<Rightarrow> pyval \<Rightarrow> error + pyval) \<Rightarrow> string \<Rightarrow> ReturnType \<Rightarrow> pyval
     \<Rightarrow> log_entry list \<times> (error + BundledRows)" where
  "evaluate ev scr ret_type ps =
     (case ev scr ps of
        Inl e \<Rightarrow> ([], Inl e)
      | Inr result \<Rightarrow> ([LogDebugResult result], bundle_result result ret_type))"

text \<open>
  The two loops of \<open>EvaluateScript\<close> over the rows: \<open>get_arguments\<close> runs on each row in
  turn, and the first exception ends the loop.
\<close>

fun collect_rows ::
  "ServicerContext \<Rightarrow> ArgType \<Rightarrow> Row list \<Rightarrow> ScriptRequestHeader
     \<Rightarrow> ServicerContext \<times> (error + pyval list list)" where
  "collect_rows ctx arg_types [] header = (ctx, Inr [])"
| "collect_rows ctx arg_types (row # rest) header =
     (case get_arguments ctx arg_types (duals row) header of
        (ctx', Inl e) \<Rightarrow> (ctx', Inl e)
      | (ctx', Inr ps) \<Rightarrow>
          (case collect_rows ctx' arg_types rest header of
             (ctx'', Inl e) \<Rightarrow> (ctx'', Inl e)
           | (ctx'', Inr all_rows) \<Rightarrow> (ctx'', Inr (ps # all_rows))))"

text \<open>
  The loop \<open>for i, datatype in enumerate(param_datatypes)\<close>, started at index \<open>i\<close>:
  \<open>all_rows[i]\<close> is read and overwritten for every parameter declared Dual, and reading
  past the end of the list raises \<open>IndexError\<close>.
\<close>

fun split_duals :: "nat \<Rightarrow> DataType list \<Rightarrow> pyval list \<Rightarrow> error + pyval list" where
  "split_duals i [] all_rows = Inr all_rows"
| "split_duals i (datatype # rest) all_rows =
     (if datatype = DUAL
      then (if i < length all_rows
            then (case py_zip_star (all_rows ! i) of
                    Inl e \<Rightarrow> Inl e
                  | Inr cols \<Rightarrow> split_duals (Suc i) rest (all_rows[i := PList cols]))
            else Inl IndexError)
      else split_duals (Suc i) rest all_rows)"

text \<open>
  The value of \<open>all_rows\<close> when \<open>EvaluateScript\<close> reaches the call of \<open>evaluate\<close> in the
  branch for declared parameters: the rows are collected, transposed, and under
  \<open>Mixed\<close> the columns of the Dual parameters are split.
\<close>

definition transposed_rows ::
  "ServicerContext \<Rightarrow> ArgType \<Rightarrow> ScriptRequestHeader \<Rightarrow> BundledRows list
     \<Rightarrow> ServicerContext \<times> (error + pyval list)" where
  "transposed_rows ctx arg_types header request =
     (case collect_rows ctx arg_types (concat (map rows request)) header of
        (ctx', Inl e) \<Rightarrow> (ctx', Inl e)
      | (ctx', Inr all_rows) \<Rightarrow>
          (let all_rows' = map PList (zip_star all_rows) in
           if arg_types = ArgMixed
           then (ctx', split_duals 0 (map dataType (params header)) all_rows')
           else (ctx', Inr all_rows')))"

text \<open>
  What an invocation leaves behind: the context, the log, the row bundles yielded so
  far, and the exception that ended the generator, if one did.
\<close>

record outcome =
  out_context :: ServicerContext
  out_log :: "log_entry list"
  emitted :: "BundledRows list"
  raised :: "error option"

definition yield_evaluate ::
  "ServicerContext \<Rightarrow> log_entry list \<Rightarrow> log_entry list \<times> (error + BundledRows) \<Rightarrow> outcome" where
  "yield_evaluate ctx lg r =
     (case r of
        (lg', Inl e) \<Rightarrow>
          \<lparr>out_context = ctx, out_log = lg @ lg', emitted = [], raised = Some e\<rparr>
      | (lg', Inr b) \<Rightarrow>
          \<lparr>out_context = ctx, out_log = lg @ lg', emitted = [b], raised = None\<rparr>)"

definition EvaluateScript ::
  "(string \<Rightarrow> pyval \<Rightarrow> error + pyval) \<Rightarrow> ScriptRequestHeader \<Rightarrow> BundledRows list
     \<Rightarrow> ServicerContext \<Rightarrow> outcome" where
  "EvaluateScript ev header request ctx =
     (let func_type = get_func_type header;
          arg_types = get_arg_types header;
          ret_type = get_return_type header;
          lg = [LogInfo (script header) arg_types ret_type func_type]
      in
      if params header \<noteq> []
      then (case transposed_rows ctx arg_types header request of
              (ctx', Inl e) \<Rightarrow>
                \<lparr>out_context = ctx', out_log = lg, emitted = [], raised = Some e\<rparr>
            | (ctx', Inr all_rows) \<Rightarrow>
                yield_evaluate ctx' (lg @ [LogDebugArgs all_rows])
                  (evaluate ev (script header) ret_type (PList all_rows)))
      else yield_evaluate ctx lg (evaluate ev (script header) ret_type (PList [])))"

subsection \<open>The wording of the specification, and a sample script\<close>

text \<open>
  \<open>classifyArguments\<close> as the specification words it: Empty for the empty sequence;
  otherwise Mixed when the set of distinct kinds has more than one member or is exactly
  \<open>{Dual}\<close>; otherwise String for \<open>{String}\<close>, Numeric for \<open>{Numeric}\<close>, and Undefined in
  any remaining case.
\<close>

definition classifyArguments :: "DataType list \<Rightarrow> ArgType" where
  "classifyArguments declaredKinds =
     (if declaredKinds = [] then ArgEmpty
      else if card (set declaredKinds) > 1 \<or> set declaredKinds = {DUAL} then ArgMixed
      else if set declaredKinds = {STRING} then ArgString
      else if set declaredKinds = {NUMERIC} then ArgNumeric
      else ArgUndefined)"

text \<open>
  The normalisation rule as the specification words it: a single string, and a value
  that has no sequence semantics, is a sequence of one element; any other value is
  taken as it is.
\<close>

fun spec_normalize :: "pyval \<Rightarrow> pyval list" where
  "spec_normalize (PStr s) = [PStr s]"
| "spec_normalize (PNum x) = [PNum x]"
| "spec_normalize (PTuple xs) = xs"
| "spec_normalize (PList xs) = xs"

text \<open>
  The extraction of one argument as the specification words it for a declared kind:
  the textual field for String, the numeric field for Numeric, and the pair of the
  numeric and the textual field for Dual. The specification knows no other kind.
\<close>

fun spec_extract :: "DataType \<Rightarrow> Dual \<Rightarrow> pyval" where
  "spec_extract STRING d = PStr (strData d)"
| "spec_extract NUMERIC d = PNum (numData d)"
| "spec_extract DUAL d = PTuple [PNum (numData d), PStr (strData d)]"
| "spec_extract (UNRECOGNIZED k) d = PTuple []"

text \<open>
  The argument column of a parameter as the specification words it, from the Duals that
  the rows hold at the position of the parameter: one flat column for String and for
  Numeric, and for Dual the numeric column followed by the textual column.
\<close>

fun spec_column :: "DataType \<Rightarrow> Dual list \<Rightarrow> pyval" where
  "spec_column STRING ds = PList (map (\<lambda>d. PStr (strData d)) ds)"
| "spec_column NUMERIC ds = PList (map (\<lambda>d. PNum (numData d)) ds)"
| "spec_column DUAL ds =
     PList [PList (map (\<lambda>d. PNum (numData d)) ds), PList (map (\<lambda>d. PStr (strData d)) ds)]"
| "spec_column (UNRECOGNIZED k) ds = PList []"

text \<open>The declared kinds of the closed enumeration.\<close>

definition known_kind :: "DataType \<Rightarrow> bool" where
  "known_kind k \<longleftrightarrow> k = STRING \<or> k = NUMERIC \<or> k = DUAL"

text \<open>
  The encoder as the specification words it: the result is normalised to a sequence of
  rows, every row is normalised to a sequence of column scalars by the same rule, and
  every column scalar is wrapped as a Dual by \<open>wrap\<close>, rows and columns in the order of
  the result.
\<close>

definition spec_encode :: "(pyval \<Rightarrow> error + Dual) \<Rightarrow> pyval \<Rightarrow> error + BundledRows" where
  "spec_encode wrap result =
     (case map_result (\<lambda>row. map_result wrap (spec_normalize row)) (spec_normalize result) of
        Inl e \<Rightarrow> Inl e
      | Inr dss \<Rightarrow> Inr \<lparr>rows = map (\<lambda>ds. \<lparr>duals = ds\<rparr>) dss\<rparr>)"

text \<open>
  The evaluator on the one-word script \<open>args\<close>, which returns the argument columns it
  was given. It is the script of the concrete runs below.
\<close>

definition eval_args :: "string \<Rightarrow> pyval \<Rightarrow> error + pyval" where
  "eval_args scr args = (if scr = ''args'' then Inr args else Inl (ScriptError scr))"

section \<open>Properties\<close>

subsection \<open>Helper lemmas\<close>

lemma list_all_eq_singleton:
  "xs \<noteq> [] \<Longrightarrow> list_all (\<lambda>x. x = k) xs \<longleftrightarrow> set xs = {k}"
  by (cases xs) (auto simp: list_all_iff)

lemma card_set_le_1_iff:
  "xs \<noteq> [] \<Longrightarrow> \<not> 1 < card (set xs) \<longleftrightarrow> (\<exists>k. set xs = {k})"
proof
  assume ne: "xs \<noteq> []" and c: "\<not> 1 < card (set xs)"
  from ne have "card (set xs) \<noteq> 0" by simp
  with c have "card (set xs) = 1" by linarith
  then show "\<exists>k. set xs = {k}" by (simp add: card_1_singleton_iff)
next
  assume "\<exists>k. set xs = {k}"
  then show "\<not> 1 < card (set xs)" by auto
qed

lemma get_arg_types_undefined_iff:
  "get_arg_types header = ArgUndefined
     \<longleftrightarrow> params header \<noteq> [] \<and> (\<exists>k. \<forall>p\<in>set (params header). dataType p = UNRECOGNIZED k)"
proof (cases "params header = []")
  case True
  then show ?thesis by (simp add: get_arg_types_def)
next
  case False
  let ?ks = "map dataType (params header)"
  from False have ne: "?ks \<noteq> []" by simp
  have u: "get_arg_types header = ArgUndefined
             \<longleftrightarrow> (\<exists>k. set ?ks = {k}) \<and> set ?ks \<noteq> {DUAL} \<and> set ?ks \<noteq> {STRING} \<and> set ?ks \<noteq> {NUMERIC}"
    using ne card_set_le_1_iff [OF ne]
    by (auto simp add: get_arg_types_def Let_def list_all_eq_singleton [OF ne] simp del: set_map)
  have "(\<exists>k. set ?ks = {k}) \<and> set ?ks \<noteq> {DUAL} \<and> set ?ks \<noteq> {STRING} \<and> set ?ks \<noteq> {NUMERIC}
          \<longleftrightarrow> (\<exists>k. set ?ks = {UNRECOGNIZED k})"
  proof
    assume a: "(\<exists>k. set ?ks = {k}) \<and> set ?ks \<noteq> {DUAL} \<and> set ?ks \<noteq> {STRING} \<and> set ?ks \<noteq> {NUMERIC}"
    then obtain d where d: "set ?ks = {d}" by blast
    with a show "\<exists>k. set ?ks = {UNRECOGNIZED k}" by (cases d) auto
  next
    assume "\<exists>k. set ?ks = {UNRECOGNIZED k}"
    then show "(\<exists>k. set ?ks = {k}) \<and> set ?ks \<noteq> {DUAL} \<and> set ?ks \<noteq> {STRING} \<and> set ?ks \<noteq> {NUMERIC}"
      by auto
  qed
  moreover have "(\<exists>k. set ?ks = {UNRECOGNIZED k})
                   \<longleftrightarrow> (\<exists>k. \<forall>p\<in>set (params header). dataType p = UNRECOGNIZED k)"
  proof -
    have "\<And>k. set ?ks = {UNRECOGNIZED k} \<longleftrightarrow> (\<forall>p\<in>set (params header). dataType p = UNRECOGNIZED k)"
      using False by (cases "params header") auto
    then show ?thesis by simp
  qed
  ultimately show ?thesis using u False by simp
qed

lemma py_format_no_field:
  "py_format ''Undefined argument type: '' [s] = ''Undefined argument type: ''"
  by simp

lemma get_arguments_undefined:
  "arg_types \<noteq> ArgString \<Longrightarrow> arg_types \<noteq> ArgNumeric \<Longrightarrow> arg_types \<noteq> ArgMixed \<Longrightarrow>
   get_arguments ctx arg_types ds header =
     (ctx\<lparr>status_code := Some INVALID_ARGUMENT,
          status_details := Some ''Undefined argument type: ''\<rparr>,
      Inl (RpcError INVALID_ARGUMENT ''Undefined argument type: ''))"
  by (simp add: get_arguments_def set_code_def set_details_def Let_def del: py_format.simps
      add: py_format_no_field)

lemma collect_rows_undefined:
  "arg_types \<noteq> ArgString \<Longrightarrow> arg_types \<noteq> ArgNumeric \<Longrightarrow> arg_types \<noteq> ArgMixed \<Longrightarrow>
   rs \<noteq> [] \<Longrightarrow>
   collect_rows ctx arg_types rs header =
     (ctx\<lparr>status_code := Some INVALID_ARGUMENT,
          status_details := Some ''Undefined argument type: ''\<rparr>,
      Inl (RpcError INVALID_ARGUMENT ''Undefined argument type: ''))"
  by (cases rs) (simp_all add: get_arguments_undefined)

lemma get_arguments_functionType:
  "get_arguments ctx arg_types ds (header\<lparr>functionType := ft\<rparr>)
     = get_arguments ctx arg_types ds header"
  by (simp add: get_arguments_def)

lemma collect_rows_functionType:
  "collect_rows ctx arg_types rs (header\<lparr>functionType := ft\<rparr>)
     = collect_rows ctx arg_types rs header"
  by (induction rs arbitrary: ctx) (simp_all add: get_arguments_functionType)

lemma get_arg_types_functionType:
  "get_arg_types (header\<lparr>functionType := ft\<rparr>) = get_arg_types header"
  by (simp add: get_arg_types_def)

lemma get_return_type_functionType:
  "get_return_type (header\<lparr>functionType := ft\<rparr>) = get_return_type header"
  by (simp add: get_return_type_def)

lemma transposed_rows_functionType:
  "transposed_rows ctx arg_types (header\<lparr>functionType := ft\<rparr>) request
     = transposed_rows ctx arg_types header request"
  by (simp add: transposed_rows_def collect_rows_functionType Let_def
      split: prod.splits sum.splits)

lemma yield_evaluate_sel:
  "out_context (yield_evaluate ctx lg r) = ctx"
  "emitted (yield_evaluate ctx lg r) = (case snd r of Inl e \<Rightarrow> [] | Inr b \<Rightarrow> [b])"
  "raised (yield_evaluate ctx lg r) = (case snd r of Inl e \<Rightarrow> Some e | Inr b \<Rightarrow> None)"
  by (cases r; cases "snd r"; simp add: yield_evaluate_def)+

lemma snd_evaluate:
  "snd (evaluate ev scr ret_type ps)
     = (case ev scr ps of Inl e \<Rightarrow> Inl e | Inr result \<Rightarrow> bundle_result result ret_type)"
  by (simp add: evaluate_def split: sum.splits)

lemma get_arguments_mixed_append:
  "get_arguments_mixed (xs @ ys) = get_arguments_mixed xs @ get_arguments_mixed ys"
  by (induction xs rule: get_arguments_mixed.induct) simp_all

lemma length_get_arguments_mixed:
  "length (get_arguments_mixed zs) \<le> length zs"
  by (induction zs rule: get_arguments_mixed.induct) auto

lemma py_iter_normalised:
  "py_iter (if is_single_value v then PList [v] else v) = Inr (spec_normalize v)"
  by (cases v) simp_all

lemma py_iter_not_single:
  "\<not> is_single_value v \<Longrightarrow> py_iter v = Inr (spec_normalize v)"
  by (cases v) simp_all

lemma spec_normalize_single:
  "is_single_value v \<Longrightarrow> spec_normalize v = [v]"
  by (cases v) simp_all

lemma get_duals_String:
  "get_duals row RetString = map_result Dual_strData (spec_normalize row)"
  by (simp add: get_duals_def Let_def py_iter_normalised)


lemma bundle_result_String:
  "bundle_result result RetString = spec_encode Dual_strData result"
proof (cases "is_single_value result")
  case True
  then show ?thesis
    by (simp add: bundle_result_def spec_encode_def spec_normalize_single get_duals_String
        split: sum.splits)
next
  case False
  then show ?thesis
    by (simp add: bundle_result_def spec_encode_def py_iter_not_single get_duals_String)
qed


lemma bundle_result_string_table:
  "bundle_result (PList (map (\<lambda>r. PList (map PStr r)) table)) RetString
     = Inr \<lparr>rows = map (\<lambda>r. \<lparr>duals = map (\<lambda>s. \<lparr>numData = 0, strData = s\<rparr>) r\<rparr>) table\<rparr>"
proof -
  have row: "\<And>r. map_result Dual_strData (map PStr r)
                  = Inr (map (\<lambda>s. \<lparr>numData = 0, strData = s\<rparr>) r)"
  proof -
    fix r show "map_result Dual_strData (map PStr r)
                  = Inr (map (\<lambda>s. \<lparr>numData = 0, strData = s\<rparr>) r)"
      by (induction r) simp_all
  qed
  have "map_result (\<lambda>row. map_result Dual_strData (spec_normalize row))
          (map (\<lambda>r. PList (map PStr r)) table)
        = Inr (map (\<lambda>r. map (\<lambda>s. \<lparr>numData = 0, strData = s\<rparr>) r) table)"
    by (induction table) (simp_all add: row)
  then show ?thesis
    by (simp add: bundle_result_String spec_encode_def comp_def)
qed


lemma Min_length_le:
  "xs \<in> set xss \<Longrightarrow> Min (set (map length xss)) \<le> length xs"
  by simp

lemma zip_star_map:
  "zip_star (map (map f) xss) = map (map f) (zip_star xss)"
proof (cases "xss = []")
  case True
  then show ?thesis by (simp add: zip_star_def)
next
  case False
  define n where "n = Min (set (map length xss))"
  have len: "Min (set (map length (map (map f) xss))) = n"
    by (simp add: n_def comp_def)
  have col: "map (\<lambda>xs. xs ! i) (map (map f) xss) = map f (map (\<lambda>xs. xs ! i) xss)"
    if "i < n" for i
  proof -
    have "i < length xs" if "xs \<in> set xss" for xs
      using \<open>i < n\<close> Min_length_le [OF that] by (simp add: n_def)
    then show ?thesis by simp
  qed
  have "zip_star (map (map f) xss)
          = map (\<lambda>i. map (\<lambda>xs. xs ! i) (map (map f) xss)) [0..<n]"
    using False by (simp only: zip_star_def len) simp
  also have "\<dots> = map (\<lambda>i. map f (map (\<lambda>xs. xs ! i) xss)) [0..<n]"
  proof (rule map_cong [OF refl])
    fix i assume "i \<in> set [0..<n]"
    then have "i < n" by simp
    then show "map (\<lambda>xs. xs ! i) (map (map f) xss) = map f (map (\<lambda>xs. xs ! i) xss)"
      by (rule col)
  qed
  also have "\<dots> = map (map f) (map (\<lambda>i. map (\<lambda>xs. xs ! i) xss) [0..<n])"
    by simp
  also have "\<dots> = map (map f) (zip_star xss)"
    using False by (simp only: zip_star_def n_def) simp
  finally show ?thesis .
qed

lemma collect_rows_String:
  "collect_rows ctx ArgString rs header
     = (ctx, Inr (map (map PStr) (map (\<lambda>r. map strData (duals r)) rs)))"
  by (induction rs) (simp_all add: get_arguments_def comp_def)

lemma transposed_rows_String:
  "transposed_rows ctx ArgString header request
     = (ctx, Inr (map (\<lambda>c. PList (map PStr c))
         (zip_star (map (\<lambda>r. map strData (duals r)) (concat (map rows request))))))"
proof -
  have "transposed_rows ctx ArgString header request
     = (ctx, Inr (map PList (zip_star (map (map PStr)
         (map (\<lambda>r. map strData (duals r)) (concat (map rows request)))))))"
    by (simp add: transposed_rows_def collect_rows_String del: map_map)
  also have "\<dots> = (ctx, Inr (map PList (map (map PStr)
         (zip_star (map (\<lambda>r. map strData (duals r)) (concat (map rows request)))))))"
    by (simp only: zip_star_map)
  finally show ?thesis by (simp add: comp_def)
qed

lemma collect_rows_encoded_strings:
  "collect_rows ctx ArgString
       (map (\<lambda>c. \<lparr>duals = map (\<lambda>s. \<lparr>numData = 0, strData = s\<rparr>) c\<rparr>) cols) header
     = (ctx, Inr (map (map PStr) cols))"
  by (simp add: collect_rows_String comp_def)

lemma get_arguments_mixed_known:
  "list_all (\<lambda>(d, p). known_kind (dataType p)) zs \<Longrightarrow>
   get_arguments_mixed zs = map (\<lambda>(d, p). spec_extract (dataType p) d) zs"
  by (induction zs rule: get_arguments_mixed.induct) (auto simp: known_kind_def)

lemma map_zip_uniform:
  "length ds = length ps \<Longrightarrow> list_all (\<lambda>p. dataType p = k) ps \<Longrightarrow>
   map (\<lambda>(d, p). spec_extract (dataType p) d) (zip ds ps) = map (spec_extract k) ds"
  by (induction ds ps rule: list_induct2) auto

lemma list_all_zip_snd:
  "list_all P ps \<Longrightarrow> list_all (\<lambda>(d, p). P p) (zip ds ps)"
  by (auto simp: list_all_iff dest: set_zip_rightD)

lemma get_arg_types_Empty_iff:
  "get_arg_types header = ArgEmpty \<longleftrightarrow> params header = []"
  by (simp add: get_arg_types_def Let_def)

lemma get_arg_types_StringD:
  "get_arg_types header = ArgString \<Longrightarrow> list_all (\<lambda>p. dataType p = STRING) (params header)"
  by (simp add: get_arg_types_def Let_def list_all_iff split: if_splits)

lemma get_arg_types_NumericD:
  "get_arg_types header = ArgNumeric \<Longrightarrow> list_all (\<lambda>p. dataType p = NUMERIC) (params header)"
  by (simp add: get_arg_types_def Let_def list_all_iff split: if_splits)

lemma get_arguments_known:
  assumes "params header \<noteq> []"
    and "list_all (\<lambda>p. known_kind (dataType p)) (params header)"
    and "length ds = length (params header)"
  shows "get_arguments ctx (get_arg_types header) ds header
           = (ctx, Inr (map (\<lambda>(d, p). spec_extract (dataType p) d) (zip ds (params header))))"
proof (cases "get_arg_types header")
  case ArgUndefined
  then obtain k where "\<forall>p\<in>set (params header). dataType p = UNRECOGNIZED k"
    by (auto simp add: get_arg_types_undefined_iff)
  with assms(1,2) have False
    by (cases "params header") (auto simp: known_kind_def)
  then show ?thesis ..
next
  case ArgEmpty
  with assms(1) show ?thesis by (simp add: get_arg_types_Empty_iff)
next
  case ArgString
  then show ?thesis
    using map_zip_uniform [OF assms(3) get_arg_types_StringD [OF ArgString]]
    by (simp add: get_arguments_def comp_def)
next
  case ArgNumeric
  then show ?thesis
    using map_zip_uniform [OF assms(3) get_arg_types_NumericD [OF ArgNumeric]]
    by (simp add: get_arguments_def comp_def)
next
  case ArgMixed
  then show ?thesis
    using assms(2)
    by (simp add: get_arguments_def get_arguments_mixed_known list_all_zip_snd)
qed

lemma collect_rows_known:
  assumes "params header \<noteq> []"
    and "list_all (\<lambda>p. known_kind (dataType p)) (params header)"
    and "list_all (\<lambda>r. length (duals r) = length (params header)) rs"
  shows "collect_rows ctx (get_arg_types header) rs header
           = (ctx, Inr (map (\<lambda>r. map (\<lambda>(d, p). spec_extract (dataType p) d)
                                  (zip (duals r) (params header))) rs))"
  using assms(3)
  by (induction rs) (simp_all add: get_arguments_known [OF assms(1,2)])

lemma zip_star_rect:
  assumes "xss \<noteq> []" and "list_all (\<lambda>xs. length xs = n) xss"
  shows "zip_star xss = map (\<lambda>i. map (\<lambda>xs. xs ! i) xss) [0..<n]"
proof -
  have "set (map length xss) = {n}"
    using assms by (cases xss) (auto simp: list_all_iff)
  then have "Min (set (map length xss)) = n"
    by (simp only: Min_singleton)
  then show ?thesis
    using assms(1) by (simp only: zip_star_def) simp
qed

lemma first_stage_columns:
  assumes "rs \<noteq> []"
    and "list_all (\<lambda>r. length (duals r) = length ps) rs"
  shows "zip_star (map (\<lambda>r. map (\<lambda>(d, p). spec_extract (dataType p) d) (zip (duals r) ps)) rs)
           = map (\<lambda>i. map (spec_extract (dataType (ps ! i))) (map (\<lambda>r. duals r ! i) rs))
               [0..<length ps]"
proof -
  let ?row = "\<lambda>r. map (\<lambda>(d, p). spec_extract (dataType p) d) (zip (duals r) ps)"
  have rect: "list_all (\<lambda>xs. length xs = length ps) (map ?row rs)"
    using assms(2) by (simp add: list_all_iff)
  have "zip_star (map ?row rs) = map (\<lambda>i. map (\<lambda>xs. xs ! i) (map ?row rs)) [0..<length ps]"
    using assms(1) by (intro zip_star_rect [OF _ rect]) simp
  also have "\<dots> = map (\<lambda>i. map (spec_extract (dataType (ps ! i))) (map (\<lambda>r. duals r ! i) rs))
                      [0..<length ps]"
  proof (rule map_cong [OF refl])
    fix i assume "i \<in> set [0..<length ps]"
    then have i: "i < length ps" by simp
    have "?row r ! i = spec_extract (dataType (ps ! i)) (duals r ! i)" if "r \<in> set rs" for r
      using that assms(2) i by (simp add: list_all_iff)
    then show "map (\<lambda>xs. xs ! i) (map ?row rs)
                 = map (spec_extract (dataType (ps ! i))) (map (\<lambda>r. duals r ! i) rs)"
      by simp
  qed
  finally show ?thesis .
qed

lemma map_result_tuples:
  "map_result py_iter (map (\<lambda>d. PTuple [PNum (numData d), PStr (strData d)]) ds)
     = Inr (map (\<lambda>d. [PNum (numData d), PStr (strData d)]) ds)"
  by (induction ds) simp_all

lemma py_zip_star_dual_column:
  assumes "ds \<noteq> []"
  shows "py_zip_star (PList (map (spec_extract DUAL) ds))
           = Inr [PList (map (\<lambda>d. PNum (numData d)) ds), PList (map (\<lambda>d. PStr (strData d)) ds)]"
proof -
  let ?pairs = "map (\<lambda>d. [PNum (numData d), PStr (strData d)]) ds"
  have e: "map (spec_extract DUAL) ds = map (\<lambda>d. PTuple [PNum (numData d), PStr (strData d)]) ds"
    by simp
  have "zip_star ?pairs = map (\<lambda>i. map (\<lambda>xs. xs ! i) ?pairs) [0..<2]"
    using assms by (intro zip_star_rect) (simp_all add: list_all_iff)
  also have "\<dots> = [map (\<lambda>d. PNum (numData d)) ds, map (\<lambda>d. PStr (strData d)) ds]"
    by (simp add: upt_rec comp_def)
  finally have z: "zip_star ?pairs
                     = [map (\<lambda>d. PNum (numData d)) ds, map (\<lambda>d. PStr (strData d)) ds]" .
  show ?thesis
    by (simp only: py_zip_star_def e py_iter.simps sum.case map_result_tuples z) simp
qed

lemma split_duals_append:
  assumes "length dts = length post"
    and "list_all (\<lambda>(dt, c). dt = DUAL \<longrightarrow> py_zip_star c = Inr (g c)) (zip dts post)"
  shows "split_duals (length pre) dts (pre @ post)
           = Inr (pre @ map (\<lambda>(dt, c). if dt = DUAL then PList (g c) else c) (zip dts post))"
  using assms
proof (induction dts post arbitrary: pre rule: list_induct2)
  case Nil
  then show ?case by simp
next
  case (Cons dt dts c post)
  let ?c' = "if dt = DUAL then PList (g c) else c"
  have ih: "split_duals (length (pre @ [?c'])) dts ((pre @ [?c']) @ post)
              = Inr ((pre @ [?c']) @ map (\<lambda>(dt, c). if dt = DUAL then PList (g c) else c)
                                        (zip dts post))"
    using Cons.prems by (intro Cons.IH) simp
  show ?case
  proof (cases "dt = DUAL")
    case True
    with Cons.prems have z: "py_zip_star c = Inr (g c)" by simp
    from True z ih show ?thesis by (simp add: nth_append)
  next
    case False
    with ih show ?thesis by simp
  qed
qed

lemma second_stage_columns:
  assumes "list_all known_kind (map dataType ps)" and "rs \<noteq> []"
  shows "split_duals 0 (map dataType ps)
           (map PList (map (\<lambda>i. map (spec_extract (dataType (ps ! i))) (map (\<lambda>r. duals r ! i) rs))
                         [0..<length ps]))
         = Inr (map (\<lambda>i. spec_column (dataType (ps ! i)) (map (\<lambda>r. duals r ! i) rs))
                  [0..<length ps])"
proof -
  let ?col = "\<lambda>i. map (\<lambda>r. duals r ! i) rs"
  let ?post = "map PList (map (\<lambda>i. map (spec_extract (dataType (ps ! i))) (?col i)) [0..<length ps])"
  let ?g = "\<lambda>c. case py_zip_star c of Inr cols \<Rightarrow> cols | Inl e \<Rightarrow> []"
  have col_ne: "?col i \<noteq> []" for i using assms(2) by simp
  have len: "length (map dataType ps) = length ?post" by simp
  have ok: "list_all (\<lambda>(dt, c). dt = DUAL \<longrightarrow> py_zip_star c = Inr (?g c))
              (zip (map dataType ps) ?post)"
  proof -
    have "py_zip_star (?post ! i) = Inr (?g (?post ! i))"
      if "i < length ps" "dataType (ps ! i) = DUAL" for i
      using that py_zip_star_dual_column [OF col_ne [of i]] by simp
    then show ?thesis
      by (auto simp add: list_all_iff set_zip simp del: map_map)
  qed
  have "split_duals (length ([]::pyval list)) (map dataType ps) ([] @ ?post)
          = Inr ([] @ map (\<lambda>(dt, c). if dt = DUAL then PList (?g c) else c)
                        (zip (map dataType ps) ?post))"
    by (rule split_duals_append [OF len ok])
  moreover have "map (\<lambda>(dt, c). if dt = DUAL then PList (?g c) else c) (zip (map dataType ps) ?post)
                   = map (\<lambda>i. spec_column (dataType (ps ! i)) (?col i)) [0..<length ps]"
  proof (rule nth_equalityI)
    show "length (map (\<lambda>(dt, c). if dt = DUAL then PList (?g c) else c)
                    (zip (map dataType ps) ?post))
            = length (map (\<lambda>i. spec_column (dataType (ps ! i)) (?col i)) [0..<length ps])"
      by simp
  next
    fix i
    assume "i < length (map (\<lambda>(dt, c). if dt = DUAL then PList (?g c) else c)
                          (zip (map dataType ps) ?post))"
    then have i: "i < length ps" by simp
    from assms(1) i have k: "known_kind (dataType (ps ! i))"
      by (simp add: list_all_length)
    show "map (\<lambda>(dt, c). if dt = DUAL then PList (?g c) else c) (zip (map dataType ps) ?post) ! i
            = map (\<lambda>i. spec_column (dataType (ps ! i)) (?col i)) [0..<length ps] ! i"
    proof (cases "dataType (ps ! i) = DUAL")
      case True
      then show ?thesis
        using i py_zip_star_dual_column [OF col_ne [of i]] by simp
    next
      case False
      with k have "dataType (ps ! i) = STRING \<or> dataType (ps ! i) = NUMERIC"
        by (simp add: known_kind_def)
      then show ?thesis
        using i False by auto
    qed
  qed
  ultimately show ?thesis by simp
qed

lemma no_split_columns:
  assumes "list_all (\<lambda>p. dataType p = k) ps" and "k = STRING \<or> k = NUMERIC"
  shows "map PList (map (\<lambda>i. map (spec_extract (dataType (ps ! i))) (map (\<lambda>r. duals r ! i) rs))
                         [0..<length ps])
         = map (\<lambda>i. spec_column (dataType (ps ! i)) (map (\<lambda>r. duals r ! i) rs)) [0..<length ps]"
proof -
  have "dataType (ps ! i) = k" if "i < length ps" for i
    using assms(1) that by (simp add: list_all_length)
  then show ?thesis
    using assms(2) by (auto simp add: comp_def)
qed

text \<open>Two String parameters and the rows \<open>(a, b)\<close> and \<open>(c, d)\<close>, sent in two bundles.\<close>

lemma scenario_strings:
  "transposed_rows \<lparr>status_code = None, status_details = None\<rparr> ArgString
     \<lparr>script = ''args'', functionType = SCALAR, returnType = STRING,
      params = [\<lparr>dataType = STRING\<rparr>, \<lparr>dataType = STRING\<rparr>]\<rparr>
     [\<lparr>rows = [\<lparr>duals = [\<lparr>numData = 1, strData = ''a''\<rparr>, \<lparr>numData = 7, strData = ''b''\<rparr>]\<rparr>]\<rparr>,
      \<lparr>rows = [\<lparr>duals = [\<lparr>numData = 2, strData = ''c''\<rparr>, \<lparr>numData = 8, strData = ''d''\<rparr>]\<rparr>]\<rparr>]
   = (\<lparr>status_code = None, status_details = None\<rparr>,
      Inr [PList [PStr ''a'', PStr ''c''], PList [PStr ''b'', PStr ''d'']])"
  by (simp add: transposed_rows_def get_arguments_def zip_star_def upt_rec)

text \<open>
  Scenario A of the specification, run on the script \<open>args\<close>: two Numeric parameters and
  the rows \<open>(1, 7)\<close> and \<open>(2, 8)\<close>, sent in two bundles.
\<close>

lemma scenario_A_run:
  "EvaluateScript eval_args
     \<lparr>script = ''args'', functionType = SCALAR, returnType = NUMERIC,
      params = [\<lparr>dataType = NUMERIC\<rparr>, \<lparr>dataType = NUMERIC\<rparr>]\<rparr>
     [\<lparr>rows = [\<lparr>duals = [\<lparr>numData = 1, strData = ''a''\<rparr>, \<lparr>numData = 7, strData = ''b''\<rparr>]\<rparr>]\<rparr>,
      \<lparr>rows = [\<lparr>duals = [\<lparr>numData = 2, strData = ''c''\<rparr>, \<lparr>numData = 8, strData = ''d''\<rparr>]\<rparr>]\<rparr>]
     \<lparr>status_code = None, status_details = None\<rparr>
   = \<lparr>out_context = \<lparr>status_code = None, status_details = None\<rparr>,
      out_log = [LogInfo ''args'' ArgNumeric RetNumeric (Some FuncScalar),
                 LogDebugArgs [PList [PNum 1, PNum 2], PList [PNum 7, PNum 8]],
                 LogDebugResult (PList [PList [PNum 1, PNum 2], PList [PNum 7, PNum 8]])],
      emitted = [\<lparr>rows = [\<lparr>duals = [\<lparr>numData = 1, strData = []\<rparr>, \<lparr>numData = 2, strData = []\<rparr>]\<rparr>,
                          \<lparr>duals = [\<lparr>numData = 7, strData = []\<rparr>, \<lparr>numData = 8, strData = []\<rparr>]\<rparr>]\<rparr>],
      raised = None\<rparr>"
  by (simp add: EvaluateScript_def get_func_type_def get_arg_types_def get_return_type_def
      transposed_rows_def get_arguments_def zip_star_def eval_args_def evaluate_def
      bundle_result_def get_duals_def yield_evaluate_def upt_rec)

subsection \<open>Classification of the arguments\<close>

text \<open>
  Claim C2. The classification of the arguments depends on the header only through the
  ordered sequence of declared kinds, and on that sequence it is the function the
  specification describes: Empty exactly for the empty sequence; otherwise Mixed
  exactly when there are at least two distinct kinds or the set of kinds is \<open>{Dual}\<close>;
  otherwise String for \<open>{String}\<close>, Numeric for \<open>{Numeric}\<close>, and Undefined in the
  remaining case.
\<close>

theorem get_arg_types_classification:
  "get_arg_types header = classifyArguments (map dataType (params header))
   \<and> (get_arg_types header = ArgEmpty \<longleftrightarrow> params header = [])"
proof (cases "params header = []")
  case True
  then show ?thesis by (simp add: get_arg_types_def classifyArguments_def)
next
  case False
  then have ne: "map dataType (params header) \<noteq> []" by simp
  show ?thesis
    using False
    by (simp add: get_arg_types_def classifyArguments_def Let_def
        list_all_eq_singleton [OF ne])
qed

theorem get_arg_types_classification_witness:
  "get_arg_types \<lparr>script = ''args'', functionType = SCALAR, returnType = STRING,
      params = [\<lparr>dataType = STRING\<rparr>, \<lparr>dataType = NUMERIC\<rparr>]\<rparr> = ArgMixed
   \<and> get_arg_types \<lparr>script = ''args'', functionType = SCALAR, returnType = STRING,
      params = [\<lparr>dataType = DUAL\<rparr>, \<lparr>dataType = DUAL\<rparr>]\<rparr> = ArgMixed
   \<and> get_arg_types \<lparr>script = ''args'', functionType = SCALAR, returnType = STRING,
      params = [\<lparr>dataType = NUMERIC\<rparr>, \<lparr>dataType = NUMERIC\<rparr>]\<rparr> = ArgNumeric
   \<and> get_arg_types \<lparr>script = ''args'', functionType = SCALAR, returnType = STRING,
      params = [\<lparr>dataType = STRING\<rparr>]\<rparr> = ArgString
   \<and> get_arg_types \<lparr>script = ''args'', functionType = SCALAR, returnType = STRING,
      params = [\<lparr>dataType = UNRECOGNIZED 7\<rparr>]\<rparr> = ArgUndefined
   \<and> get_arg_types \<lparr>script = ''args'', functionType = SCALAR, returnType = STRING,
      params = []\<rparr> = ArgEmpty"
  using get_arg_types_classification
    [of "\<lparr>script = ''args'', functionType = SCALAR, returnType = STRING,
      params = [\<lparr>dataType = STRING\<rparr>, \<lparr>dataType = NUMERIC\<rparr>]\<rparr>"]
    get_arg_types_classification
    [of "\<lparr>script = ''args'', functionType = SCALAR, returnType = STRING,
      params = [\<lparr>dataType = DUAL\<rparr>, \<lparr>dataType = DUAL\<rparr>]\<rparr>"]
    get_arg_types_classification
    [of "\<lparr>script = ''args'', functionType = SCALAR, returnType = STRING,
      params = [\<lparr>dataType = NUMERIC\<rparr>, \<lparr>dataType = NUMERIC\<rparr>]\<rparr>"]
    get_arg_types_classification
    [of "\<lparr>script = ''args'', functionType = SCALAR, returnType = STRING,
      params = [\<lparr>dataType = STRING\<rparr>]\<rparr>"]
    get_arg_types_classification
    [of "\<lparr>script = ''args'', functionType = SCALAR, returnType = STRING,
      params = [\<lparr>dataType = UNRECOGNIZED 7\<rparr>]\<rparr>"]
    get_arg_types_classification
    [of "\<lparr>script = ''args'', functionType = SCALAR, returnType = STRING,
      params = []\<rparr>"]
  by (simp add: classifyArguments_def)

subsection \<open>Extraction of the arguments of one row\<close>

text \<open>
  Claim C4. When the argument classification is Undefined, the extraction of a row sets
  the status \<open>INVALID_ARGUMENT\<close> on the context and raises \<open>RpcError\<close>, and nothing
  catches the exception, so the invocation ends with it and yields no bundle. The
  message, however, is the bare text \<open>Undefined argument type: \<close> for every
  classification: the template has no replacement field, so the classification handed
  to \<open>format\<close> does not appear in it. The run has one parameter of an unknown kind and
  one row.
\<close>

theorem undefined_message_omits_classification:
  "EvaluateScript ev
     \<lparr>script = ''args'', functionType = SCALAR, returnType = STRING,
      params = [\<lparr>dataType = UNRECOGNIZED 7\<rparr>]\<rparr>
     [\<lparr>rows = [\<lparr>duals = [\<lparr>numData = 5, strData = ''x''\<rparr>]\<rparr>]\<rparr>]
     \<lparr>status_code = None, status_details = None\<rparr>
   = \<lparr>out_context = \<lparr>status_code = Some INVALID_ARGUMENT,
                      status_details = Some ''Undefined argument type: ''\<rparr>,
      out_log = [LogInfo ''args'' ArgUndefined RetString (Some FuncScalar)],
      emitted = [],
      raised = Some (RpcError INVALID_ARGUMENT ''Undefined argument type: '')\<rparr>
   \<and> get_arguments ctx ArgUndefined ds header
     = (ctx\<lparr>status_code := Some INVALID_ARGUMENT,
            status_details := Some ''Undefined argument type: ''\<rparr>,
        Inl (RpcError INVALID_ARGUMENT ''Undefined argument type: ''))
   \<and> (\<forall>arg_types.
         py_format ''Undefined argument type: '' [str_ArgType arg_types]
           = ''Undefined argument type: '')
   \<and> str_ArgType ArgUndefined = ''ArgType.Undefined''"
proof (intro conjI allI)
  show "EvaluateScript ev
     \<lparr>script = ''args'', functionType = SCALAR, returnType = STRING,
      params = [\<lparr>dataType = UNRECOGNIZED 7\<rparr>]\<rparr>
     [\<lparr>rows = [\<lparr>duals = [\<lparr>numData = 5, strData = ''x''\<rparr>]\<rparr>]\<rparr>]
     \<lparr>status_code = None, status_details = None\<rparr>
   = \<lparr>out_context = \<lparr>status_code = Some INVALID_ARGUMENT,
                      status_details = Some ''Undefined argument type: ''\<rparr>,
      out_log = [LogInfo ''args'' ArgUndefined RetString (Some FuncScalar)],
      emitted = [],
      raised = Some (RpcError INVALID_ARGUMENT ''Undefined argument type: '')\<rparr>"
    by (simp add: EvaluateScript_def get_func_type_def get_arg_types_def get_return_type_def
        transposed_rows_def get_arguments_undefined)
  show "get_arguments ctx ArgUndefined ds header
     = (ctx\<lparr>status_code := Some INVALID_ARGUMENT,
            status_details := Some ''Undefined argument type: ''\<rparr>,
        Inl (RpcError INVALID_ARGUMENT ''Undefined argument type: ''))"
    by (simp add: get_arguments_undefined)
  show "py_format ''Undefined argument type: '' [str_ArgType arg_types]
          = ''Undefined argument type: ''" for arg_types
    by (rule py_format_no_field)
  show "str_ArgType ArgUndefined = ''ArgType.Undefined''"
    by simp
qed

text \<open>
  Claim C10. Under the Mixed classification a parameter whose declared kind is none of
  String, Numeric and Dual adds nothing to the extracted row. The extraction returns
  normally and leaves the context alone, the row it returns is shorter than the list of
  declared parameters, and the values of the parameters after the unknown one follow
  directly on those of the parameters before it, one position too early.
\<close>

theorem mixed_unknown_kind_dropped:
  assumes "params header = ps @ param # qs"
    and "dataType param \<noteq> STRING" and "dataType param \<noteq> NUMERIC" and "dataType param \<noteq> DUAL"
  shows "\<exists>args. get_arguments ctx ArgMixed ds header = (ctx, Inr args)
           \<and> length args < length (params header)
           \<and> args = get_arguments_mixed (zip (take (length ps) ds) ps)
                    @ get_arguments_mixed (zip (drop (Suc (length ps)) ds) qs)"
proof -
  let ?n = "length ps"
  have z: "zip ds (ps @ param # qs)
             = zip (take ?n ds) ps @ zip (drop ?n ds) (param # qs)"
    by (simp add: zip_append2)
  have d: "get_arguments_mixed (zip (drop ?n ds) (param # qs))
             = get_arguments_mixed (zip (drop (Suc ?n) ds) qs)"
  proof (cases "drop ?n ds")
    case Nil
    then have "drop (Suc ?n) ds = []" by simp
    with Nil show ?thesis by simp
  next
    case (Cons d es)
    then have "drop (Suc ?n) ds = es"
      by (metis drop_Suc tl_drop list.sel(3))
    with Cons assms(2-4) show ?thesis by simp
  qed
  have e': "get_arguments_mixed (zip ds (ps @ param # qs))
             = get_arguments_mixed (zip (take ?n ds) ps)
               @ get_arguments_mixed (zip (drop (Suc ?n) ds) qs)"
    by (simp only: z get_arguments_mixed_append d)
  then have e: "get_arguments_mixed (zip ds (params header))
             = get_arguments_mixed (zip (take ?n ds) ps)
               @ get_arguments_mixed (zip (drop (Suc ?n) ds) qs)"
    by (simp only: assms(1))
  have "length (get_arguments_mixed (zip (take ?n ds) ps)) \<le> ?n"
    using length_get_arguments_mixed [of "zip (take ?n ds) ps"] by simp
  moreover have "length (get_arguments_mixed (zip (drop (Suc ?n) ds) qs)) \<le> length qs"
    using length_get_arguments_mixed [of "zip (drop (Suc ?n) ds) qs"] by simp
  ultimately have "length (get_arguments_mixed (zip ds (params header))) < length (params header)"
    by (simp add: e' assms(1))
  then show ?thesis
    using e by (simp add: get_arguments_def)
qed

theorem mixed_unknown_kind_dropped_witness:
  "get_arg_types \<lparr>script = ''args'', functionType = SCALAR, returnType = STRING,
      params = [\<lparr>dataType = STRING\<rparr>, \<lparr>dataType = UNRECOGNIZED 7\<rparr>, \<lparr>dataType = NUMERIC\<rparr>]\<rparr>
     = ArgMixed
   \<and> get_arguments \<lparr>status_code = None, status_details = None\<rparr> ArgMixed
       [\<lparr>numData = 1, strData = ''a''\<rparr>, \<lparr>numData = 2, strData = ''b''\<rparr>,
        \<lparr>numData = 3, strData = ''c''\<rparr>]
       \<lparr>script = ''args'', functionType = SCALAR, returnType = STRING,
        params = [\<lparr>dataType = STRING\<rparr>, \<lparr>dataType = UNRECOGNIZED 7\<rparr>, \<lparr>dataType = NUMERIC\<rparr>]\<rparr>
     = (\<lparr>status_code = None, status_details = None\<rparr>, Inr [PStr ''a'', PNum 3])"
  using mixed_unknown_kind_dropped
    [of "\<lparr>script = ''args'', functionType = SCALAR, returnType = STRING,
        params = [\<lparr>dataType = STRING\<rparr>, \<lparr>dataType = UNRECOGNIZED 7\<rparr>, \<lparr>dataType = NUMERIC\<rparr>]\<rparr>"
        "[\<lparr>dataType = STRING\<rparr>]" "\<lparr>dataType = UNRECOGNIZED 7\<rparr>" "[\<lparr>dataType = NUMERIC\<rparr>]"
        "\<lparr>status_code = None, status_details = None\<rparr>"
        "[\<lparr>numData = 1, strData = ''a''\<rparr>, \<lparr>numData = 2, strData = ''b''\<rparr>,
          \<lparr>numData = 3, strData = ''c''\<rparr>]"]
  by (auto simp add: get_arg_types_def)

subsection \<open>The transposition\<close>

text \<open>
  When the request holds at least one row, every row has one Dual for each declared
  parameter and every declared kind is String, Numeric or Dual, the transposition
  returns one column for each parameter, in the order of the declaration: a flat column
  with one value for each row for a String or Numeric parameter, and for a Dual
  parameter (which makes the classification Mixed) the numeric column followed by the
  textual column, each with one value for each row.
\<close>

lemma transposed_rows_columns:
  assumes "params header \<noteq> []"
    and "list_all (\<lambda>p. known_kind (dataType p)) (params header)"
    and "concat (map rows request) \<noteq> []"
    and "list_all (\<lambda>r. length (duals r) = length (params header)) (concat (map rows request))"
  shows "transposed_rows ctx (get_arg_types header) header request
           = (ctx, Inr (map (\<lambda>i. spec_column (dataType (params header ! i))
                                   (map (\<lambda>r. duals r ! i) (concat (map rows request))))
                          [0..<length (params header)]))"
proof -
  let ?rs = "concat (map rows request)"
  let ?ps = "params header"
  have k: "list_all known_kind (map dataType ?ps)"
    using assms(2) by (simp add: list_all_iff)
  have t: "transposed_rows ctx (get_arg_types header) header request
             = (let all_rows' = map PList (map (\<lambda>i. map (spec_extract (dataType (?ps ! i)))
                                                     (map (\<lambda>r. duals r ! i) ?rs)) [0..<length ?ps])
                in if get_arg_types header = ArgMixed
                   then (ctx, split_duals 0 (map dataType ?ps) all_rows')
                   else (ctx, Inr all_rows'))"
    by (simp only: transposed_rows_def collect_rows_known [OF assms(1,2,4)] prod.case sum.case
        first_stage_columns [OF assms(3,4)])
  show ?thesis
  proof (cases "get_arg_types header")
    case ArgUndefined
    then obtain u where "\<forall>p\<in>set ?ps. dataType p = UNRECOGNIZED u"
      by (auto simp add: get_arg_types_undefined_iff)
    with assms(1,2) have False
      by (cases ?ps) (auto simp: known_kind_def)
    then show ?thesis ..
  next
    case ArgEmpty
    with assms(1) show ?thesis by (simp add: get_arg_types_Empty_iff)
  next
    case ArgString
    have "transposed_rows ctx (get_arg_types header) header request
            = (ctx, Inr (map PList (map (\<lambda>i. map (spec_extract (dataType (?ps ! i)))
                                              (map (\<lambda>r. duals r ! i) ?rs)) [0..<length ?ps])))"
      unfolding ArgString using t [unfolded ArgString]
      by (simp only: Let_def ArgType.simps if_False)
    also have "\<dots> = (ctx, Inr (map (\<lambda>i. spec_column (dataType (?ps ! i))
                                        (map (\<lambda>r. duals r ! i) ?rs)) [0..<length ?ps]))"
      by (simp only: no_split_columns [OF get_arg_types_StringD [OF ArgString] disjI1 [OF refl]])
    finally show ?thesis .
  next
    case ArgNumeric
    have "transposed_rows ctx (get_arg_types header) header request
            = (ctx, Inr (map PList (map (\<lambda>i. map (spec_extract (dataType (?ps ! i)))
                                              (map (\<lambda>r. duals r ! i) ?rs)) [0..<length ?ps])))"
      unfolding ArgNumeric using t [unfolded ArgNumeric]
      by (simp only: Let_def ArgType.simps if_False)
    also have "\<dots> = (ctx, Inr (map (\<lambda>i. spec_column (dataType (?ps ! i))
                                        (map (\<lambda>r. duals r ! i) ?rs)) [0..<length ?ps]))"
      by (simp only: no_split_columns [OF get_arg_types_NumericD [OF ArgNumeric] disjI2 [OF refl]])
    finally show ?thesis .
  next
    case ArgMixed
    have "transposed_rows ctx (get_arg_types header) header request
            = (ctx, split_duals 0 (map dataType ?ps)
                 (map PList (map (\<lambda>i. map (spec_extract (dataType (?ps ! i)))
                                      (map (\<lambda>r. duals r ! i) ?rs)) [0..<length ?ps])))"
      unfolding ArgMixed using t [unfolded ArgMixed]
      by (simp only: Let_def simp_thms if_True)
    also have "\<dots> = (ctx, Inr (map (\<lambda>i. spec_column (dataType (?ps ! i))
                                        (map (\<lambda>r. duals r ! i) ?rs)) [0..<length ?ps]))"
      by (simp only: second_stage_columns [OF k assms(3)])
    finally show ?thesis .
  qed
qed

text \<open>
  A String and a Dual parameter with two rows, sent in two bundles; the second column
  is the one of Scenario C of the specification with a second row.
\<close>

lemma transposed_rows_columns_example:
  "transposed_rows \<lparr>status_code = None, status_details = None\<rparr>
     (get_arg_types \<lparr>script = ''args'', functionType = SCALAR, returnType = STRING,
        params = [\<lparr>dataType = STRING\<rparr>, \<lparr>dataType = DUAL\<rparr>]\<rparr>)
     \<lparr>script = ''args'', functionType = SCALAR, returnType = STRING,
      params = [\<lparr>dataType = STRING\<rparr>, \<lparr>dataType = DUAL\<rparr>]\<rparr>
     [\<lparr>rows = [\<lparr>duals = [\<lparr>numData = 3, strData = ''a''\<rparr>, \<lparr>numData = 5, strData = ''x''\<rparr>]\<rparr>]\<rparr>,
      \<lparr>rows = [\<lparr>duals = [\<lparr>numData = 4, strData = ''b''\<rparr>, \<lparr>numData = 6, strData = ''y''\<rparr>]\<rparr>]\<rparr>]
   = (\<lparr>status_code = None, status_details = None\<rparr>,
      Inr [PList [PStr ''a'', PStr ''b''],
           PList [PList [PNum 5, PNum 6], PList [PStr ''x'', PStr ''y'']]])"
  using transposed_rows_columns
    [where header = "\<lparr>script = ''args'', functionType = SCALAR, returnType = STRING,
      params = [\<lparr>dataType = STRING\<rparr>, \<lparr>dataType = DUAL\<rparr>]\<rparr>"
       and request = "[\<lparr>rows = [\<lparr>duals = [\<lparr>numData = 3, strData = ''a''\<rparr>, \<lparr>numData = 5, strData = ''x''\<rparr>]\<rparr>]\<rparr>,
      \<lparr>rows = [\<lparr>duals = [\<lparr>numData = 4, strData = ''b''\<rparr>, \<lparr>numData = 6, strData = ''y''\<rparr>]\<rparr>]\<rparr>]"
       and ctx = "\<lparr>status_code = None, status_details = None\<rparr>"]
  by (simp add: known_kind_def upt_rec)

text \<open>
  Claim C1. The claim promises one column of length \<open>M\<close> for each of the \<open>N\<close> declared
  parameters for every number \<open>M\<close> of rows. For \<open>M = 0\<close> the code does otherwise:
  \<open>zip(*all_rows)\<close> of no rows has no element. With two String parameters and a request
  without rows the transposition returns no column at all, not two empty ones; with one
  Dual parameter the read of \<open>all_rows[0]\<close> in the second stage raises \<open>IndexError\<close> and
  the invocation ends with it.
\<close>

theorem zero_rows_lose_columns:
  "get_arg_types \<lparr>script = ''args'', functionType = SCALAR, returnType = STRING,
        params = [\<lparr>dataType = STRING\<rparr>, \<lparr>dataType = STRING\<rparr>]\<rparr> = ArgString
   \<and> transposed_rows \<lparr>status_code = None, status_details = None\<rparr> ArgString
       \<lparr>script = ''args'', functionType = SCALAR, returnType = STRING,
        params = [\<lparr>dataType = STRING\<rparr>, \<lparr>dataType = STRING\<rparr>]\<rparr>
       [\<lparr>rows = []\<rparr>]
     = (\<lparr>status_code = None, status_details = None\<rparr>, Inr [])
   \<and> get_arg_types \<lparr>script = ''args'', functionType = SCALAR, returnType = STRING,
        params = [\<lparr>dataType = DUAL\<rparr>]\<rparr> = ArgMixed
   \<and> transposed_rows \<lparr>status_code = None, status_details = None\<rparr> ArgMixed
       \<lparr>script = ''args'', functionType = SCALAR, returnType = STRING,
        params = [\<lparr>dataType = DUAL\<rparr>]\<rparr>
       [\<lparr>rows = []\<rparr>]
     = (\<lparr>status_code = None, status_details = None\<rparr>, Inl IndexError)
   \<and> EvaluateScript eval_args
       \<lparr>script = ''args'', functionType = SCALAR, returnType = STRING,
        params = [\<lparr>dataType = DUAL\<rparr>]\<rparr>
       [\<lparr>rows = []\<rparr>]
       \<lparr>status_code = None, status_details = None\<rparr>
     = \<lparr>out_context = \<lparr>status_code = None, status_details = None\<rparr>,
        out_log = [LogInfo ''args'' ArgMixed RetString (Some FuncScalar)],
        emitted = [],
        raised = Some IndexError\<rparr>"
  by (simp add: EvaluateScript_def get_func_type_def get_arg_types_def get_return_type_def
      transposed_rows_def zip_star_def)

subsection \<open>The orchestrator\<close>

text \<open>
  Claim C5, as amended. The classification is Undefined exactly when there is at least
  one parameter and all parameters declare one and the same kind outside String,
  Numeric and Dual. In that case, whenever the request holds at least one row, the
  invocation ends with \<open>RpcError\<close>, the status \<open>INVALID_ARGUMENT\<close> is set on the context
  and no bundle is yielded.
\<close>

theorem uniform_unknown_kind_aborts:
  "(get_arg_types header = ArgUndefined
      \<longleftrightarrow> params header \<noteq> [] \<and> (\<exists>k. \<forall>p\<in>set (params header). dataType p = UNRECOGNIZED k))
   \<and> (get_arg_types header = ArgUndefined \<longrightarrow> concat (map rows request) \<noteq> [] \<longrightarrow>
        EvaluateScript ev header request ctx
          = \<lparr>out_context = ctx\<lparr>status_code := Some INVALID_ARGUMENT,
                               status_details := Some ''Undefined argument type: ''\<rparr>,
             out_log = [LogInfo (script header) ArgUndefined (get_return_type header)
                          (get_func_type header)],
             emitted = [],
             raised = Some (RpcError INVALID_ARGUMENT ''Undefined argument type: '')\<rparr>)"
proof (intro conjI impI)
  show "get_arg_types header = ArgUndefined
      \<longleftrightarrow> params header \<noteq> [] \<and> (\<exists>k. \<forall>p\<in>set (params header). dataType p = UNRECOGNIZED k)"
    by (rule get_arg_types_undefined_iff)
next
  assume u: "get_arg_types header = ArgUndefined" and r: "concat (map rows request) \<noteq> []"
  from u have p: "params header \<noteq> []" by (simp add: get_arg_types_undefined_iff)
  have "transposed_rows ctx ArgUndefined header request
          = (ctx\<lparr>status_code := Some INVALID_ARGUMENT,
                 status_details := Some ''Undefined argument type: ''\<rparr>,
             Inl (RpcError INVALID_ARGUMENT ''Undefined argument type: ''))"
    using r by (simp add: transposed_rows_def collect_rows_undefined del: concat_eq_Nil_conv)
  then show "EvaluateScript ev header request ctx
          = \<lparr>out_context = ctx\<lparr>status_code := Some INVALID_ARGUMENT,
                               status_details := Some ''Undefined argument type: ''\<rparr>,
             out_log = [LogInfo (script header) ArgUndefined (get_return_type header)
                          (get_func_type header)],
             emitted = [],
             raised = Some (RpcError INVALID_ARGUMENT ''Undefined argument type: '')\<rparr>"
    using u p by (simp add: EvaluateScript_def Let_def)
qed

theorem uniform_unknown_kind_aborts_witness:
  "get_arg_types \<lparr>script = ''args'', functionType = SCALAR, returnType = STRING,
       params = [\<lparr>dataType = UNRECOGNIZED 7\<rparr>, \<lparr>dataType = UNRECOGNIZED 7\<rparr>]\<rparr> = ArgUndefined
   \<and> concat (map rows [\<lparr>rows = [\<lparr>duals = [\<lparr>numData = 5, strData = ''x''\<rparr>,
                                           \<lparr>numData = 6, strData = ''y''\<rparr>]\<rparr>]\<rparr>]) \<noteq> []
   \<and> raised (EvaluateScript eval_args
       \<lparr>script = ''args'', functionType = SCALAR, returnType = STRING,
        params = [\<lparr>dataType = UNRECOGNIZED 7\<rparr>, \<lparr>dataType = UNRECOGNIZED 7\<rparr>]\<rparr>
       [\<lparr>rows = [\<lparr>duals = [\<lparr>numData = 5, strData = ''x''\<rparr>, \<lparr>numData = 6, strData = ''y''\<rparr>]\<rparr>]\<rparr>]
       \<lparr>status_code = None, status_details = None\<rparr>)
     = Some (RpcError INVALID_ARGUMENT ''Undefined argument type: '')
   \<and> status_code (out_context (EvaluateScript eval_args
       \<lparr>script = ''args'', functionType = SCALAR, returnType = STRING,
        params = [\<lparr>dataType = UNRECOGNIZED 7\<rparr>, \<lparr>dataType = UNRECOGNIZED 7\<rparr>]\<rparr>
       [\<lparr>rows = [\<lparr>duals = [\<lparr>numData = 5, strData = ''x''\<rparr>, \<lparr>numData = 6, strData = ''y''\<rparr>]\<rparr>]\<rparr>]
       \<lparr>status_code = None, status_details = None\<rparr>))
     = Some INVALID_ARGUMENT"
proof -
  have u: "get_arg_types \<lparr>script = ''args'', functionType = SCALAR, returnType = STRING,
       params = [\<lparr>dataType = UNRECOGNIZED 7\<rparr>, \<lparr>dataType = UNRECOGNIZED 7\<rparr>]\<rparr> = ArgUndefined"
    by (simp add: get_arg_types_def)
  have r: "concat (map rows [\<lparr>rows = [\<lparr>duals = [\<lparr>numData = 5, strData = ''x''\<rparr>,
                                           \<lparr>numData = 6, strData = ''y''\<rparr>]\<rparr>]\<rparr>]) \<noteq> []"
    by simp
  show ?thesis
    using u r uniform_unknown_kind_aborts
      [of "\<lparr>script = ''args'', functionType = SCALAR, returnType = STRING,
            params = [\<lparr>dataType = UNRECOGNIZED 7\<rparr>, \<lparr>dataType = UNRECOGNIZED 7\<rparr>]\<rparr>"
          "[\<lparr>rows = [\<lparr>duals = [\<lparr>numData = 5, strData = ''x''\<rparr>, \<lparr>numData = 6, strData = ''y''\<rparr>]\<rparr>]\<rparr>]"
          eval_args "\<lparr>status_code = None, status_details = None\<rparr>"]
    by simp
qed

text \<open>
  Claim C5 as stated fails: an unknown kind next to a String parameter is classified
  Mixed, and the invocation completes.
\<close>

theorem unknown_kind_among_others_counterexample:
  "get_arg_types \<lparr>script = ''args'', functionType = SCALAR, returnType = STRING,
       params = [\<lparr>dataType = UNRECOGNIZED 7\<rparr>, \<lparr>dataType = STRING\<rparr>]\<rparr> \<noteq> ArgUndefined
   \<and> EvaluateScript eval_args
       \<lparr>script = ''args'', functionType = SCALAR, returnType = STRING,
        params = [\<lparr>dataType = UNRECOGNIZED 7\<rparr>, \<lparr>dataType = STRING\<rparr>]\<rparr>
       [\<lparr>rows = [\<lparr>duals = [\<lparr>numData = 5, strData = ''x''\<rparr>, \<lparr>numData = 6, strData = ''y''\<rparr>]\<rparr>]\<rparr>]
       \<lparr>status_code = None, status_details = None\<rparr>
     = \<lparr>out_context = \<lparr>status_code = None, status_details = None\<rparr>,
        out_log = [LogInfo ''args'' ArgMixed RetString (Some FuncScalar),
                   LogDebugArgs [PList [PStr ''y'']],
                   LogDebugResult (PList [PList [PStr ''y'']])],
        emitted = [\<lparr>rows = [\<lparr>duals = [\<lparr>numData = 0, strData = ''y''\<rparr>]\<rparr>]\<rparr>],
        raised = None\<rparr>"
  by (simp add: EvaluateScript_def get_func_type_def get_arg_types_def get_return_type_def
      transposed_rows_def get_arguments_def zip_star_def eval_args_def evaluate_def
      bundle_result_def get_duals_def yield_evaluate_def upt_rec)




text \<open>
  Claim C8. Two invocations that differ in the function-type tag of the header only
  compute the same argument columns, leave the same context, yield the same bundles and
  end with the same exception or with none. The tag reaches the log and nothing else.
\<close>

theorem function_type_only_logged:
  "transposed_rows ctx (get_arg_types (header\<lparr>functionType := ft\<rparr>))
       (header\<lparr>functionType := ft\<rparr>) request
     = transposed_rows ctx (get_arg_types header) header request
   \<and> out_context (EvaluateScript ev (header\<lparr>functionType := ft\<rparr>) request ctx)
     = out_context (EvaluateScript ev header request ctx)
   \<and> emitted (EvaluateScript ev (header\<lparr>functionType := ft\<rparr>) request ctx)
     = emitted (EvaluateScript ev header request ctx)
   \<and> raised (EvaluateScript ev (header\<lparr>functionType := ft\<rparr>) request ctx)
     = raised (EvaluateScript ev header request ctx)"
  by (simp add: EvaluateScript_def Let_def get_arg_types_functionType
      get_return_type_functionType transposed_rows_functionType yield_evaluate_sel
      snd_evaluate split: prod.splits sum.splits)

theorem function_type_only_logged_witness:
  "emitted (EvaluateScript eval_args
     (\<lparr>script = ''args'', functionType = SCALAR, returnType = NUMERIC,
      params = [\<lparr>dataType = NUMERIC\<rparr>, \<lparr>dataType = NUMERIC\<rparr>]\<rparr>\<lparr>functionType := TENSOR\<rparr>)
     [\<lparr>rows = [\<lparr>duals = [\<lparr>numData = 1, strData = ''a''\<rparr>, \<lparr>numData = 7, strData = ''b''\<rparr>]\<rparr>]\<rparr>,
      \<lparr>rows = [\<lparr>duals = [\<lparr>numData = 2, strData = ''c''\<rparr>, \<lparr>numData = 8, strData = ''d''\<rparr>]\<rparr>]\<rparr>]
     \<lparr>status_code = None, status_details = None\<rparr>)
   = [\<lparr>rows = [\<lparr>duals = [\<lparr>numData = 1, strData = []\<rparr>, \<lparr>numData = 2, strData = []\<rparr>]\<rparr>,
               \<lparr>duals = [\<lparr>numData = 7, strData = []\<rparr>, \<lparr>numData = 8, strData = []\<rparr>]\<rparr>]\<rparr>]"
  using function_type_only_logged
    [where ctx = "\<lparr>status_code = None, status_details = None\<rparr>"
       and header = "\<lparr>script = ''args'', functionType = SCALAR, returnType = NUMERIC,
      params = [\<lparr>dataType = NUMERIC\<rparr>, \<lparr>dataType = NUMERIC\<rparr>]\<rparr>"
       and ft = TENSOR
       and request = "[\<lparr>rows = [\<lparr>duals = [\<lparr>numData = 1, strData = ''a''\<rparr>, \<lparr>numData = 7, strData = ''b''\<rparr>]\<rparr>]\<rparr>,
      \<lparr>rows = [\<lparr>duals = [\<lparr>numData = 2, strData = ''c''\<rparr>, \<lparr>numData = 8, strData = ''d''\<rparr>]\<rparr>]\<rparr>]"
       and ev = eval_args]
  by (simp only: scenario_A_run outcome.simps)

subsection \<open>The result encoder\<close>



text \<open>
  Claim C3. Take the columns that the transposition of a request under the String
  classification produces, for any number of rows. They are the transposed textual
  fields of the rows of the request. Encoding them under the String return
  classification succeeds, and extracting the arguments of the rows of the encoded
  bundle under the String classification gives back the same texts in the same order.
\<close>

theorem string_round_trip:
  assumes "transposed_rows ctx ArgString header request = (ctx', Inr all_rows)"
  shows "\<exists>cols b.
           cols = zip_star (map (\<lambda>r. map strData (duals r)) (concat (map rows request)))
         \<and> all_rows = map (\<lambda>c. PList (map PStr c)) cols
         \<and> bundle_result (PList all_rows) RetString = Inr b
         \<and> collect_rows ctx' ArgString (rows b) header = (ctx', Inr (map (map PStr) cols))"
proof -
  let ?cols = "zip_star (map (\<lambda>r. map strData (duals r)) (concat (map rows request)))"
  have t: "transposed_rows ctx ArgString header request
          = (ctx, Inr (map (\<lambda>c. PList (map PStr c)) ?cols))"
    by (rule transposed_rows_String)
  with assms have c: "ctx' = ctx" and a: "all_rows = map (\<lambda>c. PList (map PStr c)) ?cols"
    by simp_all
  show ?thesis
    by (intro exI [of _ ?cols]
        exI [of _ "\<lparr>rows = map (\<lambda>c. \<lparr>duals = map (\<lambda>s. \<lparr>numData = 0, strData = s\<rparr>) c\<rparr>) ?cols\<rparr>"])
       (simp add: a bundle_result_string_table collect_rows_encoded_strings del: map_map)
qed

theorem string_round_trip_witness:
  "transposed_rows \<lparr>status_code = None, status_details = None\<rparr> ArgString
     \<lparr>script = ''args'', functionType = SCALAR, returnType = STRING,
      params = [\<lparr>dataType = STRING\<rparr>, \<lparr>dataType = STRING\<rparr>]\<rparr>
     [\<lparr>rows = [\<lparr>duals = [\<lparr>numData = 1, strData = ''a''\<rparr>, \<lparr>numData = 7, strData = ''b''\<rparr>]\<rparr>]\<rparr>,
      \<lparr>rows = [\<lparr>duals = [\<lparr>numData = 2, strData = ''c''\<rparr>, \<lparr>numData = 8, strData = ''d''\<rparr>]\<rparr>]\<rparr>]
   = (\<lparr>status_code = None, status_details = None\<rparr>,
      Inr [PList [PStr ''a'', PStr ''c''], PList [PStr ''b'', PStr ''d'']])
   \<and> (\<exists>b. bundle_result (PList [PList [PStr ''a'', PStr ''c''], PList [PStr ''b'', PStr ''d'']])
             RetString = Inr b
        \<and> collect_rows \<lparr>status_code = None, status_details = None\<rparr> ArgString (rows b)
             \<lparr>script = ''args'', functionType = SCALAR, returnType = STRING,
              params = [\<lparr>dataType = STRING\<rparr>, \<lparr>dataType = STRING\<rparr>]\<rparr>
           = (\<lparr>status_code = None, status_details = None\<rparr>,
              Inr [[PStr ''a'', PStr ''c''], [PStr ''b'', PStr ''d'']]))"
  using string_round_trip [OF scenario_strings]
  by (auto simp add: scenario_strings)

text \<open>
  Claim C9. Whatever the result of the evaluation is, \<open>get_duals\<close> raises when the
  return classification is Dual or Undefined: no branch of its conditional chain has
  bound \<open>duals\<close> when the \<open>return\<close> reads it. A row of Duals comes back only under the
  String and the Numeric return classification.
\<close>

theorem get_duals_unbound:
  "get_duals result RetDual = Inl UnboundLocalError
   \<and> get_duals result RetUndefined = Inl UnboundLocalError
   \<and> ((\<exists>ds. get_duals result ret_type = Inr ds)
        \<longrightarrow> ret_type = RetString \<or> ret_type = RetNumeric)"
  by (cases result; cases ret_type) (simp_all add: get_duals_def)

theorem get_duals_unbound_witness:
  "get_duals (PStr ''ok'') RetDual = Inl UnboundLocalError
   \<and> get_duals (PStr ''ok'') RetUndefined = Inl UnboundLocalError
   \<and> (\<exists>ds. get_duals (PStr ''ok'') RetString = Inr ds)
   \<and> (\<exists>ds. get_duals (PList [PNum 1, PNum 2]) RetNumeric = Inr ds)"
  using get_duals_unbound [of "PStr ''ok''" RetString]
  by (simp add: get_duals_def)

end
